theory Spec2Isabelle
  imports Main
begin

section \<open>JavaScript values\<close>

text \<open>
  The values the program handles are JSON-like JavaScript values. \<open>undefined\<close> is not a
  constructor: wherever the source can meet \<open>undefined\<close> (an absent property, an
  optional parameter, an uninitialised \<open>let\<close>) the model has an \<open>option\<close> and
  \<open>None\<close> stands for it. The program only ever reads properties (destructuring and
  indexing), and a read cannot tell an absent property from one that holds
  \<open>undefined\<close>, so an object is the association list of its properties that hold a
  value, read with \<open>map_of\<close>.

  Numbers: the program only tests numbers for truthiness. \<open>JNumber n\<close> stands for the
  finite doubles (\<open>0\<close> for both zeros), \<open>JNaN\<close> for NaN.
\<close>

datatype jsval =
    JNull
  | JBool bool
  | JNumber int
  | JNaN
  | JString string
  | JArray "jsval list"
  | JObject "(string \<times> jsval) list"

text \<open>The errors of the program. Each thrown \<open>Error\<close> of the source is one constructor:
  \<^item> \<open>MalformedRequestError\<close>: \<^verbatim>\<open>[getChapiCredentialRequest] The credential request was malformed.\<close>
  \<^item> \<open>IssuerNotRegisteredError issuer\<close>: \<^verbatim>\<open>Issuer "${issuer}" not found in registry.\<close>
  \<^item> \<open>AuthorizationFailedError\<close>: \<^verbatim>\<open>Unable to receive credential: Authorization with the issuer failed\<close>
  \<^item> \<open>UnsupportedAuthTypeError auth_type\<close>: \<^verbatim>\<open>Unsupported auth_type value: "${auth_type}".\<close>
  \<^item> \<open>IssuerResponseError\<close>: \<^verbatim>\<open>Unable to receive credential: The issuer failed to return a valid response\<close>
  \<^item> \<open>NoCredentialsReturnedError\<close>: \<^verbatim>\<open>Unable to receive credential: The issuer failed to return a Verifiable Credential (VC) or Verifiable Presentation (VP)\<close>
  \<^item> \<open>TypeError\<close>: the runtime's error for a property read on \<open>null\<close> or \<open>undefined\<close>
  \<^item> \<open>Thrown v\<close>: a value thrown by a function that is imported from outside these files
    (\<open>JSON.parse\<close>'s SyntaxError, a rejected \<open>fetch\<close>, ...); it propagates unchanged.
\<close>

datatype error =
    MalformedRequestError
  | IssuerNotRegisteredError string
  | AuthorizationFailedError
  | UnsupportedAuthTypeError string
  | IssuerResponseError
  | NoCredentialsReturnedError
  | TypeError
  | Thrown jsval

text \<open>ToBoolean: \<open>!v\<close> is \<open>\<not> truthy v\<close>. An absent value (\<open>undefined\<close>) is falsy.\<close>

fun truthy :: "jsval \<Rightarrow> bool" where
  "truthy JNull = False"
| "truthy (JBool b) = b"
| "truthy (JNumber n) = (n \<noteq> 0)"
| "truthy JNaN = False"
| "truthy (JString s) = (s \<noteq> [])"
| "truthy (JArray xs) = True"
| "truthy (JObject kvs) = True"

fun truthy_opt :: "jsval option \<Rightarrow> bool" where
  "truthy_opt None = False"
| "truthy_opt (Some v) = truthy v"

text \<open>
  A property read \<open>v[k]\<close> (also each name of a destructuring \<open>const {k} = v\<close>), for a
  name \<open>k\<close> that no built-in prototype defines; every name this program reads
  (\<open>issuer\<close>, \<open>vc_request_url\<close>, \<open>request\<close>, \<open>credentialRequestOrigin\<close>,
  \<open>protocols\<close>, \<open>OID4VCI\<close>, \<open>OID4VP\<close>, \<open>vcapi\<close>) is such a name. On \<open>null\<close> and
  \<open>undefined\<close> the read throws a TypeError; an object gives its own property;
  arrays, strings, numbers and booleans have no property of such a name.
\<close>

fun get_prop :: "jsval option \<Rightarrow> string \<Rightarrow> error + jsval option" where
  "get_prop None k = Inl TypeError"
| "get_prop (Some JNull) k = Inl TypeError"
| "get_prop (Some (JObject kvs)) k = Inr (map_of kvs k)"
| "get_prop (Some v) k = Inr None"

section \<open>Request classification (credentialRequest.ts, lines 12-54)\<close>

text \<open>A parameter bag, \<open>Record<string, unknown>\<close>: the properties that hold a value.\<close>

type_synonym params = "(string \<times> jsval) list"

text \<open>
  \<open>isCredentialRequestParams(params?)\<close>, lines 19-22. The parameter is optional;
  \<open>params || {}\<close> replaces an absent bag by the empty object (an object is always truthy).
\<close>

definition isCredentialRequestParams :: "params option \<Rightarrow> bool" where
  "isCredentialRequestParams params =
     (let bag = (case params of None \<Rightarrow> [] | Some p \<Rightarrow> p);
          issuer = map_of bag ''issuer'';
          vc_request_url = map_of bag ''vc_request_url''
      in issuer \<noteq> None \<and> vc_request_url \<noteq> None)"

text \<open>
  \<open>getChapiCredentialRequest(params)\<close>, lines 24-30. \<open>JSON.parse\<close> is the runtime's: it
  is the parameter \<open>JSON_parse\<close>, from the value it is given (which it first converts to
  a string) to the decoded value, or to the SyntaxError it throws.
\<close>

definition getChapiCredentialRequest ::
  "(jsval \<Rightarrow> jsval + jsval) \<Rightarrow> params \<Rightarrow> error + jsval" where
  "getChapiCredentialRequest JSON_parse params =
     (case map_of params ''request'' of
        None \<Rightarrow> Inl MalformedRequestError
      | Some requestString \<Rightarrow>
          if \<not> truthy requestString then Inl MalformedRequestError
          else (case JSON_parse requestString of
                  Inl syntaxError \<Rightarrow> Inl (Thrown syntaxError)
                | Inr request \<Rightarrow> Inr request))"

text \<open>
  \<open>Array.prototype.some\<close> with a callback that may throw: the fields are tried in order,
  the first \<open>true\<close> ends the search, and a throw leaves it.
\<close>

fun some :: "('a \<Rightarrow> error + bool) \<Rightarrow> 'a list \<Rightarrow> error + bool" where
  "some f [] = Inr False"
| "some f (x # xs) =
     (case f x of
        Inl e \<Rightarrow> Inl e
      | Inr True \<Rightarrow> Inr True
      | Inr False \<Rightarrow> some f xs)"

text \<open>
  \<open>isChapiCredentialRequest(request: any)\<close>, lines 37-54. \<open>request || {}\<close> replaces a
  falsy request (also \<open>undefined\<close>, here \<open>None\<close>) by the empty object.
\<close>

definition isChapiCredentialRequest :: "jsval option \<Rightarrow> error + bool" where
  "isChapiCredentialRequest request =
     (let r = (if truthy_opt request then request else Some (JObject [])) in
      case get_prop r ''credentialRequestOrigin'' of
        Inl e \<Rightarrow> Inl e
      | Inr credentialRequestOrigin \<Rightarrow>
     (case get_prop r ''protocols'' of
        Inl e \<Rightarrow> Inl e
      | Inr protocols \<Rightarrow>
          let hasChapiCredentialRequestFields =
                (credentialRequestOrigin \<noteq> None \<and> protocols \<noteq> None)
          in if \<not> hasChapiCredentialRequestFields then Inr False
             else some (\<lambda>field. case get_prop protocols field of
                                   Inl e \<Rightarrow> Inl e
                                 | Inr v \<Rightarrow> Inr (truthy_opt v))
                       [''OID4VCI'', ''OID4VP'', ''vcapi'']))"

text \<open>\<open>isChapiCredentialRequestParams(params)\<close>, lines 32-35: no \<open>try\<close> around the call of
  \<open>getChapiCredentialRequest\<close>, so what that throws leaves this function too.\<close>

definition isChapiCredentialRequestParams ::
  "(jsval \<Rightarrow> jsval + jsval) \<Rightarrow> params \<Rightarrow> error + bool" where
  "isChapiCredentialRequestParams JSON_parse params =
     (case getChapiCredentialRequest JSON_parse params of
        Inl e \<Rightarrow> Inl e
      | Inr request \<Rightarrow> isChapiCredentialRequest (Some request))"

section \<open>The credential exchange (credentialRequest.ts, lines 56-135)\<close>

record CredentialRequestParams =
  auth_type :: "string option"
  issuer :: string
  vc_request_url :: string
  challenge :: "string option"

text \<open>The \<open>RequestInit\<close> given to \<open>fetch\<close>. \<open>body\<close> is \<open>JSON.stringify(requestBody)\<close>: the
  serialisation is the runtime's, and the field keeps the value that is serialised.\<close>

record fetchRequest =
  http_method :: string
  headers :: "(string \<times> string) list"
  body :: jsval

text \<open>The \<open>Response\<close> of \<open>fetch\<close>. Its \<open>ok\<close> is the Fetch API's: the status is in the
  range 200-299 (the spec, section 6: success is any 2xx status).\<close>

record response =
  status :: nat
  responseText :: string

definition ok :: "response \<Rightarrow> bool" where
  "ok r = (200 \<le> status r \<and> status r \<le> 299)"

text \<open>What \<open>authorize\<close> (react-native-app-auth) resolves to; only \<open>accessToken\<close> is read.\<close>

record AuthorizeResult =
  accessToken :: string

text \<open>
  The functions that \<open>requestCredential\<close> imports from modules outside these files
  (\<open>./issuerAuth\<close>, \<open>react-native-app-auth\<close>, \<open>./present\<close>, the runtime's \<open>fetch\<close>,
  \<open>./parseResponse\<close>, \<open>./verifiableObject\<close>), as parameters. Each is a function of its
  arguments (one attempt calls each at most once); \<open>Inl v\<close> is the value it throws or
  rejects with. \<open>extractCredentialsFrom\<close>
  returns \<open>Credential[] | null\<close>: \<open>None\<close> is \<open>null\<close>. The DID record, the OIDC
  configuration, the presentation, the decoded response and the credentials are
  values this function only passes on.
\<close>

record capabilities =
  isInRegistry :: "string \<Rightarrow> bool"
  entryFor :: "string \<Rightarrow> jsval + jsval"
  authorize :: "jsval \<Rightarrow> jsval + AuthorizeResult"
  createVerifiablePresentation :: "jsval \<Rightarrow> string option \<Rightarrow> jsval + jsval"
  fetch :: "string \<Rightarrow> fetchRequest \<Rightarrow> jsval + response"
  parseResponseBody :: "response \<Rightarrow> jsval + jsval"
  verifyVerifiableObject :: "jsval \<Rightarrow> jsval + bool"
  extractCredentialsFrom :: "jsval \<Rightarrow> jsval + jsval list option"

text \<open>The effects of one attempt, in order: console output (the printed values are kept
  as values, not as text), the timer, and each call of an imported function.\<close>

datatype level = Log | Warn | Err

datatype printed =
    PText string
  | PParams CredentialRequestParams
  | PValue jsval
  | PResponse response
  | PError error

datatype event =
    Console level "printed list"
  | SetTimeout nat
  | CallIsInRegistry string
  | CallEntryFor string
  | CallAuthorize jsval
  | CallCreateVerifiablePresentation jsval "string option"
  | CallFetch string fetchRequest
  | CallParseResponseBody response
  | CallVerifyVerifiableObject jsval
  | CallExtractCredentialsFrom jsval

text \<open>A computation: what it returns or throws, and the effects it had until then.\<close>

type_synonym 'a flow = "(error + 'a) \<times> event list"

definition ret :: "'a \<Rightarrow> 'a flow" where
  "ret x = (Inr x, [])"

definition throw :: "error \<Rightarrow> 'a flow" where
  "throw e = (Inl e, [])"

definition emit :: "event \<Rightarrow> unit flow" where
  "emit ev = (Inr (), [ev])"

text \<open>A call of an imported function: the call is recorded, then it returns or throws.\<close>

definition call :: "event \<Rightarrow> jsval + 'a \<Rightarrow> 'a flow" where
  "call ev r = (case r of Inl v \<Rightarrow> (Inl (Thrown v), [ev]) | Inr x \<Rightarrow> (Inr x, [ev]))"

text \<open>Sequencing (\<open>;\<close> and \<open>await\<close>): a throw skips what follows.\<close>

definition bind :: "'a flow \<Rightarrow> ('a \<Rightarrow> 'b flow) \<Rightarrow> 'b flow" where
  "bind m f =
     (case m of
        (Inl e, t) \<Rightarrow> (Inl e, t)
      | (Inr x, t) \<Rightarrow> (case f x of (r, t') \<Rightarrow> (r, t @ t')))"

text \<open>\<open>try { m } catch (err) { h err }\<close>.\<close>

definition try_catch :: "'a flow \<Rightarrow> (error \<Rightarrow> 'a flow) \<Rightarrow> 'a flow" where
  "try_catch m h =
     (case m of
        (Inl err, t) \<Rightarrow> (case h err of (r, t') \<Rightarrow> (r, t @ t'))
      | (Inr x, t) \<Rightarrow> (Inr x, t))"

text \<open>
  Lines 66-94: \<open>let accessToken\<close> and the \<open>switch (auth_type)\<close>. The result is the
  \<open>accessToken\<close> after the switch (\<open>None\<close>: still \<open>undefined\<close>).
\<close>

definition acquireAccessToken :: "capabilities \<Rightarrow> string \<Rightarrow> string \<Rightarrow> string option flow" where
  "acquireAccessToken caps auth_type' issuer' =
     (if auth_type' = ''code'' then
        bind (call (CallIsInRegistry issuer') (Inr (isInRegistry caps issuer'))) (\<lambda>inRegistry.
        if \<not> inRegistry then throw (IssuerNotRegisteredError issuer')
        else
          bind (call (CallEntryFor issuer') (entryFor caps issuer')) (\<lambda>oidcConfig.
          bind (emit (SetTimeout 1000)) (\<lambda>_.
          bind (emit (Console Log [PText ''Launching OIDC auth:'', PValue oidcConfig])) (\<lambda>_.
          try_catch
            (bind (emit (Console Log [PText ''authorize() called with:'', PValue oidcConfig])) (\<lambda>_.
             bind (call (CallAuthorize oidcConfig) (authorize caps oidcConfig)) (\<lambda>result.
             bind (emit (Console Log [PText ''Received access token, requesting credential.''])) (\<lambda>_.
             ret (Some (accessToken result))))))
            (\<lambda>err.
             bind (emit (Console Err [PError err])) (\<lambda>_.
             throw AuthorizationFailedError))))))
      else if auth_type' = ''bearer'' then ret None
      else throw (UnsupportedAuthTypeError auth_type'))"

text \<open>
  Lines 96-114: the presentation is built and logged, the headers are set, and the
  request is submitted once. \<open>if (accessToken)\<close>: an absent and an empty token are
  falsy. The result is the \<open>response\<close>.
\<close>

definition submitPresentation ::
  "capabilities \<Rightarrow> jsval \<Rightarrow> string option \<Rightarrow> string \<Rightarrow> string option \<Rightarrow> response flow" where
  "submitPresentation caps didRecord challenge' vc_request_url' accessToken' =
     bind (call (CallCreateVerifiablePresentation didRecord challenge')
                (createVerifiablePresentation caps didRecord challenge')) (\<lambda>requestBody.
     bind (emit (Console Log [PValue requestBody])) (\<lambda>_.
     let headers0 = [(''Content-Type'', ''application/json'')];
         headers' = (case accessToken' of
                       None \<Rightarrow> headers0
                     | Some token \<Rightarrow>
                         if token \<noteq> [] then headers0 @ [(''Authorization'', ''Bearer '' @ token)]
                         else headers0);
         request = \<lparr> http_method = ''POST'', headers = headers', body = requestBody \<rparr>
     in call (CallFetch vc_request_url' request) (fetch caps vc_request_url' request)))"

text \<open>Lines 116-134: the response is checked, decoded, verified (a \<open>false\<close> only
  warns) and the credentials are extracted.\<close>

definition receiveCredentials :: "capabilities \<Rightarrow> response \<Rightarrow> jsval list flow" where
  "receiveCredentials caps response =
     bind (if \<not> ok response then
             bind (emit (Console Err [PText ''Issuer response (failed): '', PResponse response])) (\<lambda>_.
             throw IssuerResponseError)
           else ret ()) (\<lambda>_.
     bind (call (CallParseResponseBody response) (parseResponseBody caps response)) (\<lambda>verifiableObject.
     bind (call (CallVerifyVerifiableObject verifiableObject)
                (verifyVerifiableObject caps verifiableObject)) (\<lambda>verified.
     bind (if \<not> verified then
             emit (Console Warn [PText ''Response was received, but could not be verified''])
           else ret ()) (\<lambda>_.
     bind (call (CallExtractCredentialsFrom verifiableObject)
                (extractCredentialsFrom caps verifiableObject)) (\<lambda>credentials.
     case credentials of
       None \<Rightarrow> throw NoCredentialsReturnedError
     | Some cs \<Rightarrow> ret cs)))))"

text \<open>
  \<open>requestCredential(credentialRequestParams, didRecord)\<close>, lines 56-135: the three
  parts above in sequence, after the first log. The destructuring default
  \<open>auth_type = 'code'\<close> stands for an absent \<open>auth_type\<close>.
\<close>

definition requestCredential ::
  "capabilities \<Rightarrow> CredentialRequestParams \<Rightarrow> jsval \<Rightarrow> jsval list flow" where
  "requestCredential caps credentialRequestParams didRecord =
     (let auth_type' = (case auth_type credentialRequestParams of None \<Rightarrow> ''code'' | Some a \<Rightarrow> a);
          issuer' = issuer credentialRequestParams;
          vc_request_url' = vc_request_url credentialRequestParams;
          challenge' = challenge credentialRequestParams
      in
      bind (emit (Console Log [PText ''Credential request params'', PParams credentialRequestParams])) (\<lambda>_.
      bind (acquireAccessToken caps auth_type' issuer') (\<lambda>accessToken'.
      bind (submitPresentation caps didRecord challenge' vc_request_url' accessToken') (\<lambda>response.
      receiveCredentials caps response))))"

text \<open>Which effects are calls of which imported function.\<close>

fun is_console :: "event \<Rightarrow> bool" where
  "is_console (Console l ps) = True"
| "is_console ev = False"

fun is_authorize :: "event \<Rightarrow> bool" where
  "is_authorize (CallAuthorize cfg) = True"
| "is_authorize ev = False"

fun is_createVerifiablePresentation :: "event \<Rightarrow> bool" where
  "is_createVerifiablePresentation (CallCreateVerifiablePresentation d c) = True"
| "is_createVerifiablePresentation ev = False"

fun is_fetch :: "event \<Rightarrow> bool" where
  "is_fetch (CallFetch url req) = True"
| "is_fetch ev = False"

fun is_responseProcessing :: "event \<Rightarrow> bool" where
  "is_responseProcessing (CallParseResponseBody r) = True"
| "is_responseProcessing (CallVerifyVerifiableObject v) = True"
| "is_responseProcessing (CallExtractCredentialsFrom v) = True"
| "is_responseProcessing ev = False"

text \<open>The requests of the HTTP submissions among the effects.\<close>

fun fetchRequests :: "event list \<Rightarrow> fetchRequest list" where
  "fetchRequests [] = []"
| "fetchRequests (CallFetch url req # evs) = req # fetchRequests evs"
| "fetchRequests (ev # evs) = fetchRequests evs"

section \<open>The share screen (ShareHomeScreen.tsx, lines 19-44)\<close>

text \<open>
  Modelled from the spec: the type \<open>Credential\<close> (\<open>../types/credential\<close>) is not among
  the sources. The spec gives \<open>issuer: string | {id, name?}\<close>; of \<open>credentialSubject\<close>
  the screen reads \<open>hasCredential?.name\<close> only, both optional. The fields \<open>id\<close> and
  \<open>issuer\<close> are \<open>issuerId\<close> and \<open>credentialIssuer\<close> here (\<open>id\<close> is HOL's identity, and
  \<open>issuer\<close> is a field of the request parameters too); \<open>ecName\<close> is \<open>hasCredential.name\<close>.
\<close>

record IssuerObject =
  issuerId :: string
  name :: "string option"

datatype Issuer = IssuerString string | IssuerObj IssuerObject

record EducationalOperationalCredential =
  ecName :: "string option"

record Subject =
  hasCredential :: "EducationalOperationalCredential option"

record Credential =
  credentialSubject :: Subject
  credentialIssuer :: Issuer

text \<open>The props of the \<open>CredentialItem\<close> element that \<open>renderItem\<close> returns;
  \<open>onSelect\<close> is \<open>() => toggle(index)\<close>, kept as the index it toggles.\<close>

record CredentialItemProps =
  title :: string
  subtitle :: string
  onSelect :: nat
  selected :: bool
  checkable :: bool

text \<open>\<open>typeof issuer !== 'string'\<close>, and the read \<open>issuer.name\<close> (on a string the read
  finds no such property).\<close>

fun typeof_string :: "Issuer \<Rightarrow> bool" where
  "typeof_string (IssuerString s) = True"
| "typeof_string (IssuerObj obj) = False"

fun issuer_name :: "Issuer \<Rightarrow> string option" where
  "issuer_name (IssuerString s) = None"
| "issuer_name (IssuerObj obj) = name obj"

text \<open>\<open>toggle(credentialIndex)\<close>, lines 19-25, on the \<open>selected\<close> state.\<close>

definition toggle :: "nat list \<Rightarrow> nat \<Rightarrow> nat list" where
  "toggle sel credentialIndex =
     (if credentialIndex \<in> set sel then filter (\<lambda>i. i \<noteq> credentialIndex) sel
      else sel @ [credentialIndex])"

text \<open>\<open>renderItem({ item, index })\<close>, lines 27-44.\<close>

definition renderItem :: "nat list \<Rightarrow> Credential \<Rightarrow> nat \<Rightarrow> CredentialItemProps" where
  "renderItem sel item index =
     (let iss = credentialIssuer item;
          title' = (case (case hasCredential (credentialSubject item) of
                            None \<Rightarrow> None | Some hc \<Rightarrow> ecName hc) of
                      None \<Rightarrow> '''' | Some n \<Rightarrow> n);
          subtitle' = (if \<not> typeof_string iss \<and> issuer_name iss \<noteq> None
                       then (case issuer_name iss of Some n \<Rightarrow> n | None \<Rightarrow> '''')
                       else '''')
      in \<lparr> title = title', subtitle = subtitle', onSelect = index,
           selected = (index \<in> set sel), checkable = True \<rparr>)"

section \<open>Example inputs\<close>

text \<open>
  The scenario of the spec's section 8: the issuer \<open>univ.example\<close> is the one registered
  issuer, the request goes to \<open>https://univ.example/vc\<close> with the challenge \<open>abc123\<close>,
  and the collaborators answer with the given HTTP status, verification result and
  extraction result.
\<close>

definition exampleCapabilities :: "nat \<Rightarrow> bool \<Rightarrow> jsval list option \<Rightarrow> capabilities" where
  "exampleCapabilities httpStatus verified extracted =
     \<lparr> isInRegistry = (\<lambda>i. i = ''univ.example''),
       entryFor = (\<lambda>i. Inr (JObject [(''clientId'', JString ''wallet'')])),
       authorize = (\<lambda>cfg. Inr \<lparr> accessToken = ''token-1'' \<rparr>),
       createVerifiablePresentation =
         (\<lambda>d c. Inr (JObject [(''type'', JString ''VerifiablePresentation'')])),
       fetch = (\<lambda>url req. Inr \<lparr> status = httpStatus, responseText = ''{}'' \<rparr>),
       parseResponseBody = (\<lambda>r. Inr (JObject [(''verifiableCredential'', JArray [])])),
       verifyVerifiableObject = (\<lambda>v. Inr verified),
       extractCredentialsFrom = (\<lambda>v. Inr extracted) \<rparr>"

definition exampleParams :: "string option \<Rightarrow> string \<Rightarrow> CredentialRequestParams" where
  "exampleParams authType iss =
     \<lparr> auth_type = authType, issuer = iss,
       vc_request_url = ''https://univ.example/vc'', challenge = Some ''abc123'' \<rparr>"

definition exampleDid :: jsval where
  "exampleDid = JObject [(''id'', JString ''did:example:holder'')]"

definition exampleRequest :: fetchRequest where
  "exampleRequest =
     \<lparr> http_method = ''POST'', headers = [(''Content-Type'', ''application/json'')],
       body = JObject [(''type'', JString ''VerifiablePresentation'')] \<rparr>"

definition exampleObject :: jsval where
  "exampleObject = JObject [(''verifiableCredential'', JArray [])]"

section \<open>Results and effects of a sequence\<close>

lemma fst_bind: "fst (bind m f) = (case fst m of Inl e \<Rightarrow> Inl e | Inr x \<Rightarrow> fst (f x))"
  by (cases m) (simp add: bind_def split: sum.splits prod.splits)

lemma snd_bind: "snd (bind m f) = snd m @ (case fst m of Inl e \<Rightarrow> [] | Inr x \<Rightarrow> snd (f x))"
  by (cases m) (simp add: bind_def split: sum.splits prod.splits)

lemma fst_call: "fst (call ev r) = (case r of Inl v \<Rightarrow> Inl (Thrown v) | Inr x \<Rightarrow> Inr x)"
  by (simp add: call_def split: sum.splits)

lemma snd_call: "snd (call ev r) = [ev]"
  by (simp add: call_def split: sum.splits)

lemma flow_simps:
  "fst (ret x) = Inr x" "snd (ret x) = []"
  "fst (throw e) = Inl e" "snd (throw e) = []"
  "fst (emit ev) = Inr ()" "snd (emit ev) = [ev]"
  by (simp_all add: ret_def throw_def emit_def)

lemma fst_try_catch:
  "fst (try_catch m h) = (case fst m of Inl e \<Rightarrow> fst (h e) | Inr x \<Rightarrow> Inr x)"
  by (cases m) (simp add: try_catch_def split: sum.splits prod.splits)

lemma snd_try_catch:
  "snd (try_catch m h) = snd m @ (case fst m of Inl e \<Rightarrow> snd (h e) | Inr x \<Rightarrow> [])"
  by (cases m) (simp add: try_catch_def split: sum.splits prod.splits)

lemmas flow_proj = fst_bind snd_bind fst_call snd_call flow_simps fst_try_catch snd_try_catch

lemmas example_defs = exampleCapabilities_def exampleParams_def exampleDid_def exampleRequest_def
  exampleObject_def requestCredential_def acquireAccessToken_def submitPresentation_def
  receiveCredentials_def bind_def call_def emit_def ret_def throw_def try_catch_def ok_def Let_def

lemma fetchRequests_append: "fetchRequests (xs @ ys) = fetchRequests xs @ fetchRequests ys"
  by (induction xs rule: fetchRequests.induct) simp_all

section \<open>The three parts of an attempt\<close>

text \<open>The result and the effects of \<open>requestCredential\<close>, from those of its parts.\<close>

lemma requestCredential_fst:
  "fst (requestCredential caps p did) =
     (case fst (acquireAccessToken caps (case auth_type p of None \<Rightarrow> ''code'' | Some a \<Rightarrow> a) (issuer p)) of
        Inl e \<Rightarrow> Inl e
      | Inr tok \<Rightarrow>
          (case fst (submitPresentation caps did (challenge p) (vc_request_url p) tok) of
             Inl e \<Rightarrow> Inl e
           | Inr resp \<Rightarrow> fst (receiveCredentials caps resp)))"
  by (simp add: requestCredential_def flow_proj Let_def split: sum.splits)

lemma requestCredential_snd:
  "snd (requestCredential caps p did) =
     Console Log [PText ''Credential request params'', PParams p] #
     snd (acquireAccessToken caps (case auth_type p of None \<Rightarrow> ''code'' | Some a \<Rightarrow> a) (issuer p)) @
     (case fst (acquireAccessToken caps (case auth_type p of None \<Rightarrow> ''code'' | Some a \<Rightarrow> a) (issuer p)) of
        Inl e \<Rightarrow> []
      | Inr tok \<Rightarrow>
          snd (submitPresentation caps did (challenge p) (vc_request_url p) tok) @
          (case fst (submitPresentation caps did (challenge p) (vc_request_url p) tok) of
             Inl e \<Rightarrow> []
           | Inr resp \<Rightarrow> snd (receiveCredentials caps resp)))"
  by (simp add: requestCredential_def flow_proj Let_def split: sum.splits)

subsection \<open>Authorization\<close>

lemma acquire_effects:
  "filter is_responseProcessing (snd (acquireAccessToken caps a i)) = []"
  "filter is_fetch (snd (acquireAccessToken caps a i)) = []"
  "filter is_createVerifiablePresentation (snd (acquireAccessToken caps a i)) = []"
  by (simp_all add: acquireAccessToken_def flow_proj split: sum.splits)

lemma acquire_code_unregistered:
  "\<not> isInRegistry caps i \<Longrightarrow>
     acquireAccessToken caps ''code'' i = (Inl (IssuerNotRegisteredError i), [CallIsInRegistry i])"
  by (simp add: acquireAccessToken_def bind_def call_def throw_def)

lemma acquire_bearer: "acquireAccessToken caps ''bearer'' i = (Inr None, [])"
  by (simp add: acquireAccessToken_def ret_def)

lemma acquire_code_errors:
  "fst (acquireAccessToken caps ''code'' i) \<noteq> Inl (UnsupportedAuthTypeError a)"
  by (simp add: acquireAccessToken_def flow_proj split: sum.splits)

subsection \<open>Submission\<close>

lemma submit_effects:
  "filter is_responseProcessing (snd (submitPresentation caps d c u t)) = []"
  "filter is_authorize (snd (submitPresentation caps d c u t)) = []"
  by (simp_all add: submitPresentation_def flow_proj Let_def split: sum.splits)

lemma submit_without_token:
  "list_all (\<lambda>req. map_of (headers req) ''Authorization'' = None)
     (fetchRequests (snd (submitPresentation caps d c u None)))"
  "CallCreateVerifiablePresentation d c \<in> set (snd (submitPresentation caps d c u None))"
  by (simp_all add: submitPresentation_def flow_proj Let_def split: sum.splits)

lemma submit_fetch:
  assumes "CallFetch url req \<in> set (snd (submitPresentation caps d c u t))"
  shows "fst (submitPresentation caps d c u t) =
           (case fetch caps url req of Inl v \<Rightarrow> Inl (Thrown v) | Inr r \<Rightarrow> Inr r) \<and>
         filter is_fetch (snd (submitPresentation caps d c u t)) = [CallFetch url req]"
  using assms
  by (auto simp: submitPresentation_def flow_proj Let_def split: sum.splits if_splits option.splits)

lemma submit_errors:
  "fst (submitPresentation caps d c u t) \<noteq> Inl (UnsupportedAuthTypeError a)"
  by (simp add: submitPresentation_def flow_proj Let_def split: sum.splits)

subsection \<open>The response\<close>

lemma receive_effects:
  "filter is_fetch (snd (receiveCredentials caps resp)) = []"
  "filter is_authorize (snd (receiveCredentials caps resp)) = []"
  "fetchRequests (snd (receiveCredentials caps resp)) = []"
  by (simp_all add: receiveCredentials_def flow_proj fetchRequests_append
        split: sum.splits option.splits)

lemma receive_not_ok:
  "\<not> ok resp \<Longrightarrow>
     receiveCredentials caps resp =
       (Inl IssuerResponseError, [Console Err [PText ''Issuer response (failed): '', PResponse resp]])"
  by (simp add: receiveCredentials_def bind_def emit_def throw_def)

lemma receive_verify:
  assumes "CallVerifyVerifiableObject vo \<in> set (snd (receiveCredentials caps resp))"
      and "verifyVerifiableObject caps vo = Inr False"
      and "extractCredentialsFrom caps vo = Inr (Some creds)"
  shows "fst (receiveCredentials caps resp) = Inr creds \<and>
         CallExtractCredentialsFrom vo \<in> set (snd (receiveCredentials caps resp)) \<and>
         Console Warn [PText ''Response was received, but could not be verified'']
           \<in> set (snd (receiveCredentials caps resp))"
  using assms
  by (auto simp: receiveCredentials_def flow_proj split: if_splits sum.splits option.splits)

lemma receive_extract:
  assumes "CallExtractCredentialsFrom vo \<in> set (snd (receiveCredentials caps resp))"
  shows "fst (receiveCredentials caps resp) =
           (case extractCredentialsFrom caps vo of
              Inl v \<Rightarrow> Inl (Thrown v)
            | Inr None \<Rightarrow> Inl NoCredentialsReturnedError
            | Inr (Some cs) \<Rightarrow> Inr cs)"
  using assms
  by (auto simp: receiveCredentials_def flow_proj split: if_splits sum.splits option.splits)

lemma receive_errors:
  "fst (receiveCredentials caps resp) \<noteq> Inl (UnsupportedAuthTypeError a)"
  by (simp add: receiveCredentials_def flow_proj split: sum.splits option.splits)

subsection \<open>Where an effect of the whole attempt comes from\<close>

text \<open>A decode, verify or extract call of an attempt is a call of its last part, which
  then decides the result.\<close>

lemma processing_reaches_receive:
  assumes "ev \<in> set (snd (requestCredential caps p did))" and "is_responseProcessing ev"
  shows "\<exists>resp. ev \<in> set (snd (receiveCredentials caps resp)) \<and>
           fst (requestCredential caps p did) = fst (receiveCredentials caps resp) \<and>
           set (snd (receiveCredentials caps resp)) \<subseteq> set (snd (requestCredential caps p did))"
proof -
  let ?a = "acquireAccessToken caps (case auth_type p of None \<Rightarrow> ''code'' | Some a \<Rightarrow> a) (issuer p)"
  have na: "ev \<notin> set (snd ?a)"
    using acquire_effects(1) [of caps _ "issuer p"] assms(2)
    by (metis filter_empty_conv)
  show ?thesis
  proof (cases "fst ?a")
    case (Inl e)
    with assms na show ?thesis by (auto simp: requestCredential_snd)
  next
    case (Inr tok)
    let ?s = "submitPresentation caps did (challenge p) (vc_request_url p) tok"
    have ns: "ev \<notin> set (snd ?s)"
      using submit_effects(1) [of caps did "challenge p" "vc_request_url p" tok] assms(2)
      by (metis filter_empty_conv)
    show ?thesis
    proof (cases "fst ?s")
      case (Inl e)
      with Inr assms na ns show ?thesis by (auto simp: requestCredential_snd)
    next
      case resp: (Inr resp)
      with Inr assms na ns have "ev \<in> set (snd (receiveCredentials caps resp))"
        by (auto simp: requestCredential_snd)
      moreover from Inr resp
      have "fst (requestCredential caps p did) = fst (receiveCredentials caps resp)"
        by (simp add: requestCredential_fst)
      moreover from Inr resp
      have "set (snd (receiveCredentials caps resp)) \<subseteq> set (snd (requestCredential caps p did))"
        by (auto simp: requestCredential_snd)
      ultimately show ?thesis by blast
    qed
  qed
qed

text \<open>A submission of an attempt is the submission of its second part, reached with the
  token of the first.\<close>

lemma fetch_reaches_submit:
  assumes "CallFetch url req \<in> set (snd (requestCredential caps p did))"
  shows "\<exists>tok. fst (acquireAccessToken caps (case auth_type p of None \<Rightarrow> ''code'' | Some a \<Rightarrow> a) (issuer p)) = Inr tok \<and>
           CallFetch url req \<in> set (snd (submitPresentation caps did (challenge p) (vc_request_url p) tok))"
proof -
  let ?a = "acquireAccessToken caps (case auth_type p of None \<Rightarrow> ''code'' | Some a \<Rightarrow> a) (issuer p)"
  have na: "CallFetch url req \<notin> set (snd ?a)"
    using acquire_effects(2) [of caps _ "issuer p"]
    by (metis filter_empty_conv is_fetch.simps(1))
  have nr: "CallFetch url req \<notin> set (snd (receiveCredentials caps resp))" for resp
    using receive_effects(1) [of caps resp]
    by (metis filter_empty_conv is_fetch.simps(1))
  show ?thesis
  proof (cases "fst ?a")
    case (Inl e)
    with assms na show ?thesis by (auto simp: requestCredential_snd)
  next
    case (Inr tok)
    with assms na nr have
      "CallFetch url req \<in> set (snd (submitPresentation caps did (challenge p) (vc_request_url p) tok))"
      by (auto simp: requestCredential_snd split: sum.splits)
    with Inr show ?thesis by blast
  qed
qed

section \<open>The exchange: verification, extraction, authorization, submission\<close>

text \<open>
  Claim C1. In every attempt that reaches the verifier with a decoded object \<open>vo\<close>
  (so decoding succeeded), where the verifier returns \<open>false\<close> and the extractor
  returns the non-null sequence \<open>creds\<close>, \<open>requestCredential\<close> does not fail: it warns,
  calls the extractor on \<open>vo\<close> and returns \<open>creds\<close>. A failed verification alone is
  never a failed attempt.
\<close>

theorem verification_failure_is_not_fatal:
  assumes "CallVerifyVerifiableObject vo \<in> set (snd (requestCredential caps p did))"
      and "verifyVerifiableObject caps vo = Inr False"
      and "extractCredentialsFrom caps vo = Inr (Some creds)"
  shows "fst (requestCredential caps p did) = Inr creds \<and>
         CallExtractCredentialsFrom vo \<in> set (snd (requestCredential caps p did)) \<and>
         Console Warn [PText ''Response was received, but could not be verified'']
           \<in> set (snd (requestCredential caps p did))"
proof -
  from processing_reaches_receive [OF assms(1)] obtain resp where
    r: "CallVerifyVerifiableObject vo \<in> set (snd (receiveCredentials caps resp))"
       "fst (requestCredential caps p did) = fst (receiveCredentials caps resp)"
       "set (snd (receiveCredentials caps resp)) \<subseteq> set (snd (requestCredential caps p did))"
    by auto
  from receive_verify [OF r(1) assms(2,3)] r(2,3) show ?thesis by auto
qed

text \<open>The bearer scenario with a verifier that returns \<open>false\<close> and two extracted
  credentials: both are returned.\<close>

theorem verification_failure_is_not_fatal_witness:
  "CallVerifyVerifiableObject exampleObject
     \<in> set (snd (requestCredential (exampleCapabilities 200 False (Some [JString ''vc1'', JString ''vc2'']))
                   (exampleParams (Some ''bearer'') ''univ.example'') exampleDid)) \<and>
   verifyVerifiableObject (exampleCapabilities 200 False (Some [JString ''vc1'', JString ''vc2''])) exampleObject
     = Inr False \<and>
   fst (requestCredential (exampleCapabilities 200 False (Some [JString ''vc1'', JString ''vc2'']))
          (exampleParams (Some ''bearer'') ''univ.example'') exampleDid)
     = Inr [JString ''vc1'', JString ''vc2'']"
  using verification_failure_is_not_fatal
          [of exampleObject "exampleCapabilities 200 False (Some [JString ''vc1'', JString ''vc2''])"
              "exampleParams (Some ''bearer'') ''univ.example''" exampleDid
              "[JString ''vc1'', JString ''vc2'']"]
  by (simp add: example_defs)

text \<open>
  Claim C2. In every attempt that reaches extraction (the extractor is called on \<open>vo\<close>),
  \<open>requestCredential\<close> fails with NoCredentialsReturnedError exactly when the extractor
  returns \<open>null\<close>, and returns the sequence whenever the extractor returns a non-null
  sequence, the empty one included.
\<close>

theorem extraction_decides_the_result:
  assumes "CallExtractCredentialsFrom vo \<in> set (snd (requestCredential caps p did))"
  shows "(fst (requestCredential caps p did) = Inl NoCredentialsReturnedError
            \<longleftrightarrow> extractCredentialsFrom caps vo = Inr None) \<and>
         (\<forall>cs. extractCredentialsFrom caps vo = Inr (Some cs)
            \<longrightarrow> fst (requestCredential caps p did) = Inr cs)"
proof -
  from processing_reaches_receive [OF assms] obtain resp where
    r: "CallExtractCredentialsFrom vo \<in> set (snd (receiveCredentials caps resp))"
       "fst (requestCredential caps p did) = fst (receiveCredentials caps resp)"
    by auto
  from receive_extract [OF r(1)] r(2) show ?thesis
    by (auto split: sum.splits option.splits)
qed

text \<open>An extractor that returns the empty sequence gives the empty sequence, and one that
  returns \<open>null\<close> gives NoCredentialsReturnedError, with the verifier returning \<open>true\<close>.\<close>

theorem extraction_decides_the_result_witness:
  "CallExtractCredentialsFrom exampleObject
     \<in> set (snd (requestCredential (exampleCapabilities 200 True (Some []))
                   (exampleParams (Some ''bearer'') ''univ.example'') exampleDid)) \<and>
   fst (requestCredential (exampleCapabilities 200 True (Some []))
          (exampleParams (Some ''bearer'') ''univ.example'') exampleDid) = Inr [] \<and>
   CallExtractCredentialsFrom exampleObject
     \<in> set (snd (requestCredential (exampleCapabilities 200 True None)
                   (exampleParams (Some ''bearer'') ''univ.example'') exampleDid)) \<and>
   fst (requestCredential (exampleCapabilities 200 True None)
          (exampleParams (Some ''bearer'') ''univ.example'') exampleDid) = Inl NoCredentialsReturnedError"
  using extraction_decides_the_result
          [of exampleObject "exampleCapabilities 200 True (Some [])"
              "exampleParams (Some ''bearer'') ''univ.example''" exampleDid]
        extraction_decides_the_result
          [of exampleObject "exampleCapabilities 200 True None"
              "exampleParams (Some ''bearer'') ''univ.example''" exampleDid]
  by (simp add: example_defs)

text \<open>
  Claim C4. For every request with \<open>auth_type\<close> \<open>"code"\<close> whose issuer is not in the
  registry, \<open>requestCredential\<close> fails with IssuerNotRegisteredError, and the attempt
  has no call of the authorization capability, none of the presentation builder and no
  HTTP submission (the submission count is 0).
\<close>

theorem unregistered_issuer_aborts_before_authorization:
  assumes "auth_type p = Some ''code''" and "\<not> isInRegistry caps (issuer p)"
  shows "fst (requestCredential caps p did) = Inl (IssuerNotRegisteredError (issuer p)) \<and>
         filter is_authorize (snd (requestCredential caps p did)) = [] \<and>
         filter is_createVerifiablePresentation (snd (requestCredential caps p did)) = [] \<and>
         length (filter is_fetch (snd (requestCredential caps p did))) = 0"
  using assms by (simp add: requestCredential_fst requestCredential_snd acquire_code_unregistered)

text \<open>With the issuer \<open>unknown.example\<close> the attempt is the first log and the registry
  lookup, nothing else.\<close>

theorem unregistered_issuer_aborts_before_authorization_witness:
  "auth_type (exampleParams (Some ''code'') ''unknown.example'') = Some ''code'' \<and>
   \<not> isInRegistry (exampleCapabilities 200 True (Some []))
        (issuer (exampleParams (Some ''code'') ''unknown.example'')) \<and>
   requestCredential (exampleCapabilities 200 True (Some []))
       (exampleParams (Some ''code'') ''unknown.example'') exampleDid
     = (Inl (IssuerNotRegisteredError ''unknown.example''),
        [Console Log [PText ''Credential request params'',
                      PParams (exampleParams (Some ''code'') ''unknown.example'')],
         CallIsInRegistry ''unknown.example''])"
  using unregistered_issuer_aborts_before_authorization
          [of "exampleParams (Some ''code'') ''unknown.example''"
              "exampleCapabilities 200 True (Some [])" exampleDid]
  by (simp add: example_defs)

text \<open>
  Claim C5. For every request with \<open>auth_type\<close> \<open>"bearer"\<close>, \<open>requestCredential\<close> never
  calls the authorization capability, calls the presentation builder with the DID
  record and the \<open>challenge\<close> of the parameters (present or not, as it is), and every
  HTTP submission of the attempt has no \<open>Authorization\<close> header.
\<close>

theorem bearer_sends_no_authorization:
  assumes "auth_type p = Some ''bearer''"
  shows "filter is_authorize (snd (requestCredential caps p did)) = [] \<and>
         CallCreateVerifiablePresentation did (challenge p) \<in> set (snd (requestCredential caps p did)) \<and>
         list_all (\<lambda>req. map_of (headers req) ''Authorization'' = None)
           (fetchRequests (snd (requestCredential caps p did)))"
  using assms
    submit_without_token [where caps = caps and d = did and c = "challenge p" and u = "vc_request_url p"]
  by (simp add: requestCredential_snd acquire_bearer submit_effects receive_effects
        fetchRequests_append split: sum.splits)

text \<open>The bearer scenario of the spec: the challenge \<open>abc123\<close> goes to the presentation
  builder, and the one request submitted has the \<open>Content-Type\<close> header only.\<close>

theorem bearer_sends_no_authorization_witness:
  "auth_type (exampleParams (Some ''bearer'') ''univ.example'') = Some ''bearer'' \<and>
   filter is_authorize
     (snd (requestCredential (exampleCapabilities 200 True (Some [JString ''vc1'', JString ''vc2'']))
             (exampleParams (Some ''bearer'') ''univ.example'') exampleDid)) = [] \<and>
   CallCreateVerifiablePresentation exampleDid (Some ''abc123'')
     \<in> set (snd (requestCredential (exampleCapabilities 200 True (Some [JString ''vc1'', JString ''vc2'']))
                   (exampleParams (Some ''bearer'') ''univ.example'') exampleDid)) \<and>
   fetchRequests
     (snd (requestCredential (exampleCapabilities 200 True (Some [JString ''vc1'', JString ''vc2'']))
             (exampleParams (Some ''bearer'') ''univ.example'') exampleDid)) = [exampleRequest]"
  using bearer_sends_no_authorization
          [of "exampleParams (Some ''bearer'') ''univ.example''"
              "exampleCapabilities 200 True (Some [JString ''vc1'', JString ''vc2''])" exampleDid]
  by (simp add: example_defs)

text \<open>
  Claim C6. In every attempt whose HTTP submission returns a response with a status
  outside 200-299, \<open>requestCredential\<close> fails with IssuerResponseError, the attempt has
  exactly one submission (no retry), and it has no call of the response decoder, of the
  verifier or of the extractor.
\<close>

theorem non_2xx_response_is_terminal:
  assumes "CallFetch url req \<in> set (snd (requestCredential caps p did))"
      and "fetch caps url req = Inr resp"
      and "\<not> ok resp"
  shows "fst (requestCredential caps p did) = Inl IssuerResponseError \<and>
         length (filter is_fetch (snd (requestCredential caps p did))) = 1 \<and>
         filter is_responseProcessing (snd (requestCredential caps p did)) = []"
proof -
  from fetch_reaches_submit [OF assms(1)] obtain tok where
    a: "fst (acquireAccessToken caps (case auth_type p of None \<Rightarrow> ''code'' | Some a \<Rightarrow> a) (issuer p)) = Inr tok"
    and s: "CallFetch url req \<in> set (snd (submitPresentation caps did (challenge p) (vc_request_url p) tok))"
    by auto
  from submit_fetch [OF s] assms(2) have
    sr: "fst (submitPresentation caps did (challenge p) (vc_request_url p) tok) = Inr resp"
    and sf: "filter is_fetch (snd (submitPresentation caps did (challenge p) (vc_request_url p) tok))
               = [CallFetch url req]"
    by simp_all
  from a sr assms(3) have "fst (requestCredential caps p did) = Inl IssuerResponseError"
    by (simp add: requestCredential_fst receive_not_ok)
  moreover from a sr sf assms(3)
  have "length (filter is_fetch (snd (requestCredential caps p did))) = 1"
    by (simp add: requestCredential_snd receive_not_ok acquire_effects)
  moreover from a sr assms(3)
  have "filter is_responseProcessing (snd (requestCredential caps p did)) = []"
    by (simp add: requestCredential_snd receive_not_ok acquire_effects submit_effects)
  ultimately show ?thesis by simp
qed

text \<open>The bearer scenario with an issuer that answers HTTP 500.\<close>

theorem non_2xx_response_is_terminal_witness:
  "CallFetch ''https://univ.example/vc'' exampleRequest
     \<in> set (snd (requestCredential (exampleCapabilities 500 True (Some [JString ''vc1'', JString ''vc2'']))
                   (exampleParams (Some ''bearer'') ''univ.example'') exampleDid)) \<and>
   fetch (exampleCapabilities 500 True (Some [JString ''vc1'', JString ''vc2'']))
       ''https://univ.example/vc'' exampleRequest
     = Inr \<lparr> status = 500, responseText = ''{}'' \<rparr> \<and>
   \<not> ok \<lparr> status = 500, responseText = ''{}'' \<rparr> \<and>
   fst (requestCredential (exampleCapabilities 500 True (Some [JString ''vc1'', JString ''vc2'']))
          (exampleParams (Some ''bearer'') ''univ.example'') exampleDid) = Inl IssuerResponseError"
  using non_2xx_response_is_terminal
          [of "''https://univ.example/vc''" exampleRequest
              "exampleCapabilities 500 True (Some [JString ''vc1'', JString ''vc2''])"
              "exampleParams (Some ''bearer'') ''univ.example''" exampleDid
              "\<lparr> status = 500, responseText = ''{}'' \<rparr>"]
  by (simp add: example_defs)

text \<open>
  Claim C10. For every \<open>CredentialRequestParams\<close> with \<open>auth_type\<close> absent,
  \<open>requestCredential\<close> behaves as with \<open>auth_type\<close> \<open>"code"\<close>: the result is the same and
  so is every effect after the first log line (which prints the parameters as they
  were given); with an issuer that is not in the registry it fails with
  IssuerNotRegisteredError; and it never fails with UnsupportedAuthTypeError.
\<close>

theorem absent_auth_type_is_code:
  assumes "auth_type p = None"
  shows "fst (requestCredential caps p did)
           = fst (requestCredential caps (p\<lparr>auth_type := Some ''code''\<rparr>) did) \<and>
         tl (snd (requestCredential caps p did))
           = tl (snd (requestCredential caps (p\<lparr>auth_type := Some ''code''\<rparr>) did)) \<and>
         (\<not> isInRegistry caps (issuer p) \<longrightarrow>
            fst (requestCredential caps p did) = Inl (IssuerNotRegisteredError (issuer p))) \<and>
         (\<forall>a. fst (requestCredential caps p did) \<noteq> Inl (UnsupportedAuthTypeError a))"
proof -
  have "fst (requestCredential caps p did) \<noteq> Inl (UnsupportedAuthTypeError a)" for a
    using assms acquire_code_errors [of caps "issuer p" a]
      submit_errors [of caps did "challenge p" "vc_request_url p" _ a] receive_errors [of caps _ a]
    by (auto simp: requestCredential_fst split: sum.splits)
  with assms show ?thesis
    by (simp add: requestCredential_fst requestCredential_snd acquire_code_unregistered
          split: sum.splits)
qed

text \<open>Without \<open>auth_type\<close> and with the issuer \<open>unknown.example\<close>: the failure of the
  \<open>code\<close> flow.\<close>

theorem absent_auth_type_is_code_witness:
  "auth_type (exampleParams None ''unknown.example'') = None \<and>
   \<not> isInRegistry (exampleCapabilities 200 True (Some []))
        (issuer (exampleParams None ''unknown.example'')) \<and>
   fst (requestCredential (exampleCapabilities 200 True (Some []))
          (exampleParams None ''unknown.example'') exampleDid)
     = Inl (IssuerNotRegisteredError ''unknown.example'') \<and>
   fst (requestCredential (exampleCapabilities 200 True (Some []))
          ((exampleParams None ''unknown.example'')\<lparr>auth_type := Some ''code''\<rparr>) exampleDid)
     = Inl (IssuerNotRegisteredError ''unknown.example'')"
  using absent_auth_type_is_code
          [of "exampleParams None ''unknown.example''" "exampleCapabilities 200 True (Some [])" exampleDid]
  by (simp add: example_defs)

section \<open>Request classification\<close>

lemma has_key: "(map_of kvs k \<noteq> None) = (k \<in> fst ` set kvs)"
  unfolding map_of_eq_None_iff by simp

text \<open>
  Claim C7. For every parameter bag, \<open>isCredentialRequestParams\<close> returns true iff the
  bag has both the key \<open>issuer\<close> and the key \<open>vc_request_url\<close>, whatever values they hold;
  so it returns false for every bag that misses one of them, and for an absent bag.
\<close>

theorem isCredentialRequestParams_iff_keys_present:
  "isCredentialRequestParams params =
     (case params of
        None \<Rightarrow> False
      | Some bag \<Rightarrow> ''issuer'' \<in> fst ` set bag \<and> ''vc_request_url'' \<in> fst ` set bag)"
  unfolding isCredentialRequestParams_def Let_def has_key
  by (simp split: option.splits)

text \<open>What \<open>isChapiCredentialRequest\<close> returns where it returns: on an object whose
  \<open>protocols\<close> is an object, on an object without \<open>protocols\<close>, and on a request that is
  no object.\<close>

lemma isChapiCredentialRequest_protocols_object:
  assumes "map_of kvs ''protocols'' = Some (JObject ps)"
  shows "isChapiCredentialRequest (Some (JObject kvs)) =
           Inr (''credentialRequestOrigin'' \<in> fst ` set kvs \<and>
                (truthy_opt (map_of ps ''OID4VCI'') \<or> truthy_opt (map_of ps ''OID4VP'') \<or>
                 truthy_opt (map_of ps ''vcapi'')))"
  using assms has_key [of kvs "''credentialRequestOrigin''"]
  by (auto simp: isChapiCredentialRequest_def Let_def split: bool.splits)

lemma isChapiCredentialRequest_protocols_absent:
  assumes "map_of kvs ''protocols'' = None"
  shows "isChapiCredentialRequest (Some (JObject kvs)) = Inr False"
  using assms by (simp add: isChapiCredentialRequest_def Let_def)

lemma isChapiCredentialRequest_not_object:
  assumes "\<And>kvs. request \<noteq> Some (JObject kvs)"
  shows "isChapiCredentialRequest request = Inr False"
proof (cases request)
  case None
  then show ?thesis by (simp add: isChapiCredentialRequest_def Let_def)
next
  case (Some v)
  with assms have "\<nexists>kvs. v = JObject kvs" by simp
  with Some show ?thesis
    by (cases v) (simp_all add: isChapiCredentialRequest_def Let_def)
qed

text \<open>
  Claim C8. The claim: for every request object, \<open>isChapiCredentialRequest\<close> returns true
  iff \<open>credentialRequestOrigin\<close> and \<open>protocols\<close> are both present and one of \<open>OID4VCI\<close>,
  \<open>OID4VP\<close>, \<open>vcapi\<close> is truthy in \<open>protocols\<close>, and false when none is, even if both
  fields are present. The code does not return at all on a request whose \<open>protocols\<close> is
  \<open>null\<close>: both fields are present (\<open>null !== undefined\<close>), and the read
  \<open>protocols['OID4VCI']\<close> throws a TypeError.
\<close>

theorem isChapiCredentialRequest_null_protocols_throws:
  "isChapiCredentialRequest
     (Some (JObject [(''credentialRequestOrigin'', JString ''https://issuer.example''),
                     (''protocols'', JNull)])) = Inl TypeError"
  by (simp add: isChapiCredentialRequest_def)

text \<open>What \<open>isChapiCredentialRequestParams\<close> returns where it returns: the answer of
  \<open>isChapiCredentialRequest\<close> on the decoded request.\<close>

lemma isChapiCredentialRequestParams_returns:
  "isChapiCredentialRequestParams JSON_parse params = Inr b \<longleftrightarrow>
     (\<exists>request. getChapiCredentialRequest JSON_parse params = Inr request \<and>
                isChapiCredentialRequest (Some request) = Inr b)"
  by (simp add: isChapiCredentialRequestParams_def split: sum.splits)

text \<open>
  Claim C3. The claim: for every parameter bag, \<open>isChapiCredentialRequestParams\<close> returns
  a boolean, false in particular when the \<open>request\<close> field is absent or empty. The code
  returns nothing there: on the empty bag, on a bag whose \<open>request\<close> is the empty string
  and on a bag of a direct request (\<open>issuer\<close> and \<open>vc_request_url\<close>, no \<open>request\<close>) the
  error of \<open>getChapiCredentialRequest\<close> leaves the function, whatever \<open>JSON.parse\<close> does.
\<close>

theorem isChapiCredentialRequestParams_throws_without_request:
  "isChapiCredentialRequestParams JSON_parse [] = Inl MalformedRequestError \<and>
   isChapiCredentialRequestParams JSON_parse [(''request'', JString '''')]
     = Inl MalformedRequestError \<and>
   isChapiCredentialRequestParams JSON_parse
     [(''issuer'', JString ''univ.example''), (''vc_request_url'', JString ''https://univ.example/vc'')]
     = Inl MalformedRequestError"
  by (simp add: isChapiCredentialRequestParams_def getChapiCredentialRequest_def)

section \<open>The share screen\<close>

text \<open>
  Claim C9. For every credential that the share screen renders, the subtitle is
  \<open>issuer.name\<close> when the issuer is an object with a name, and the empty string when the
  issuer is a bare string or an object without a name; \<open>renderItem\<close> is total, so neither
  variant fails.
\<close>

theorem renderItem_subtitle:
  "subtitle (renderItem sel item index) =
     (case credentialIssuer item of
        IssuerString s \<Rightarrow> ''''
      | IssuerObj obj \<Rightarrow> (case name obj of Some n \<Rightarrow> n | None \<Rightarrow> ''''))"
  by (simp add: renderItem_def Let_def split: Issuer.splits option.splits)

end
